theory Spec2Isabelle
  imports Complex_Main "HOL-Library.Log_Nat"
begin

section \<open>Common notions\<close>

text \<open>
  Numbers of the source that hold counts and points (\<open>xp\<close>, \<open>level\<close>, streak
  counters, scores) are modelled as unbounded integers; instants (\<open>Date\<close>) are
  integers too, the milliseconds since the epoch, so that \<open>today - lastActivity\<close> is
  the subtraction the source performs. Identifiers (\<open>ObjectId\<close>) are natural
  numbers, compared by equality as the source compares their \<open>toString()\<close>.
\<close>

type_synonym date = int
type_synonym objectId = nat

text \<open>
  A badge criterion is a \<open>type\<close> tag with a \<open>value\<close> of mixed type; each case of
  \<open>checkCriterion\<close> reads the value at one type, which the constructor carries.
  For \<open>course_completion\<close> the value is a course id (a string), a number, or
  something else; for \<open>skill_level\<close> it is a name and a level, \<open>None\<close> when the level
  is none of the three names. \<open>OtherCriterion\<close> is \<open>custom\<close> or an unknown tag.
\<close>

datatype skill_level = Beginner | Intermediate | Advanced

datatype criterion =
    CourseCompletionOf objectId
  | CourseCompletionCount rat
  | CourseCompletionOther
  | SkillLevel string "skill_level option"
  | GigCompletion rat
  | RatingThreshold rat
  | XpThreshold rat
  | StreakDays rat
  | OtherCriterion

text \<open>
  The reasons for which \<open>checkEligibility\<close> reports a badge as not to be awarded:
  ``Badge is not active'', ``Badge not yet available'', ``Badge availability has
  expired'', ``Prerequisites not met'', ``Badge already earned'', or the reason of
  the first criterion that is not met.
\<close>

datatype ineligibility =
    BadgeNotActive
  | BadgeNotYetAvailable
  | BadgeAvailabilityExpired
  | PrerequisitesNotMet
  | BadgeAlreadyEarned
  | CriterionNotMet criterion

text \<open>
  \<open>Error msg\<close> is \<open>throw new Error(msg)\<close>, and \<open>Ineligible r\<close> is
  \<open>throw new Error(eligibility.reason)\<close>; \<open>ValidationError path\<close> is the rejection
  of \<open>save()\<close> when a schema validator of a modified path fails; \<open>AppError msg code\<close>
  is what a route hands to \<open>next\<close> (\<open>createNotFoundError\<close>, \<open>createPermissionError\<close>);
  \<open>HttpReply code msg\<close> is a failure reply a route sends itself.
\<close>

datatype error =
    Error string
  | ValidationError string
  | Ineligible ineligibility
  | AppError string nat
  | HttpReply nat string

text \<open>\<open>String.prototype.includes\<close>: the argument occurs as a contiguous run.\<close>

fun startsWith :: "string \<Rightarrow> string \<Rightarrow> bool" where
  "startsWith s [] = True"
| "startsWith [] (c # cs) = False"
| "startsWith (d # ds) (c # cs) = (d = c \<and> startsWith ds cs)"

fun str_includes :: "string \<Rightarrow> string \<Rightarrow> bool" where
  "str_includes [] sub = startsWith [] sub"
| "str_includes (d # ds) sub = (startsWith (d # ds) sub \<or> str_includes ds sub)"

text \<open>
  A \<open>Number\<close> of the source is an IEEE 754 double. A double is modelled by the
  rational it denotes, and every division, product and sum of the source by the
  exact result rounded to the nearest double, ties to the even significand
  (\<open>toDouble\<close>): the significand has 53 bits, and below \<open>2^-1022\<close> the spacing is that
  of the subnormal numbers, \<open>2^-1074\<close>. No value computed here reaches \<open>2^1024\<close> or is
  not a number: the counts are array lengths, below \<open>2^32\<close> in the source, and the
  divisors are positive where the source divides. Integers below \<open>2^53\<close> are
  doubles, so counts and instants enter the arithmetic as they are.
\<close>

text \<open>
  For a positive \<open>x\<close>, \<open>exponent x\<close> is the \<open>e\<close> with \<open>2^e \<le> x < 2^(e+1)\<close>, found
  from the bit lengths of numerator and denominator; \<open>roundHalfEven\<close> rounds to
  the nearest integer, a tie to the even one.
\<close>

definition exponent :: "rat \<Rightarrow> int" where
  "exponent x =
     (let (a, b) = quotient_of x; e0 = bitlen a - bitlen b
      in if 2 powi e0 \<le> x then e0 else e0 - 1)"

definition roundHalfEven :: "rat \<Rightarrow> int" where
  "roundHalfEven y =
     (let f = \<lfloor>y\<rfloor>; d = y - of_int f
      in if d < 1 / 2 then f else if 1 / 2 < d then f + 1 else if even f then f else f + 1)"

definition toDouble :: "rat \<Rightarrow> rat" where
  "toDouble x =
     (if x = 0 then 0
      else (let q = 2 powi (max (exponent \<bar>x\<bar> - 52) (- 1074))
            in of_int (roundHalfEven (x / q)) * q))"

definition num_div :: "rat \<Rightarrow> rat \<Rightarrow> rat" where
  "num_div a b = toDouble (a / b)"

definition num_mul :: "rat \<Rightarrow> rat \<Rightarrow> rat" where
  "num_mul a b = toDouble (a * b)"

definition num_add :: "rat \<Rightarrow> rat \<Rightarrow> rat" where
  "num_add a b = toDouble (a + b)"

text \<open>
  \<open>Math.round\<close> yields the integer nearest to its argument, the upper one of two
  that are equally near, and \<open>Math.ceil\<close> the least integer not below it; both
  are exact on the double they are given.
\<close>

definition Math_round :: "rat \<Rightarrow> int" where
  "Math_round x = \<lfloor>x + 1 / 2\<rfloor>"

definition Math_ceil :: "rat \<Rightarrow> int" where
  "Math_ceil x = \<lceil>x\<rceil>"

section \<open>User: experience points, level and streak (models/User.js)\<close>

record streak =
  current :: int
  longest :: int
  lastActivityDate :: "date option"

record earned_badge =
  badgeId :: objectId
  eb_courseId :: "objectId option"

record skill =
  skill_name :: string
  skill_level :: skill_level

record enrolled_course =
  ec_courseId :: objectId
  ec_completed :: bool

datatype role = Learner | Business | Admin

record user =
  user_id :: objectId
  role :: role
  xp :: int
  level :: int
  streak :: streak
  badges :: "earned_badge list"
  skills :: "skill list"
  enrolledCourses :: "enrolled_course list"
  gigsCompleted :: int
  rating_average :: rat
  rating_count :: int

text \<open>
  \<open>updateLevel\<close>: the level is only ever raised; the result says whether it was.
\<close>

definition updateLevel :: "user \<Rightarrow> user \<times> bool" where
  "updateLevel u =
     (let newLevel = xp u div 1000 + 1 in
      if newLevel > level u then (u\<lparr>level := newLevel\<rparr>, True) else (u, False))"

definition msPerDay :: int where
  "msPerDay = 1000 * 60 * 60 * 24"

text \<open>
  \<open>updateStreak\<close>, with \<open>today\<close> the value of \<open>new Date()\<close>. The day difference is
  the elapsed time in days, rounded up.
\<close>

definition updateStreak :: "user \<Rightarrow> date \<Rightarrow> user" where
  "updateStreak u today =
     (case lastActivityDate (streak u) of
        None \<Rightarrow> u\<lparr>streak := (streak u)\<lparr>current := 1, lastActivityDate := Some today\<rparr>\<rparr>
      | Some lastActivity \<Rightarrow>
          (let diffTime = \<bar>today - lastActivity\<bar>;
               diffDays = Math_ceil (num_div (of_int diffTime) (of_int msPerDay));
               s = streak u;
               s1 = (if diffDays = 1 then
                       (let c = current s + 1 in
                        if c > longest s then s\<lparr>current := c, longest := c\<rparr>
                        else s\<lparr>current := c\<rparr>)
                     else if diffDays > 1 then s\<lparr>current := 1\<rparr>
                     else s)
           in u\<lparr>streak := s1\<lparr>lastActivityDate := Some today\<rparr>\<rparr>))"

text \<open>
  \<open>save()\<close> of a user after \<open>addXP\<close>: of the paths \<open>addXP\<close> writes, \<open>xp\<close> carries the
  validator \<open>min: 0\<close> and \<open>level\<close> the validator \<open>min: 1\<close>; validators run on the
  paths whose value changed. \<open>before\<close> is the document as loaded.
\<close>

definition save_user :: "user \<Rightarrow> user \<Rightarrow> error + user" where
  "save_user before u =
     (if xp u \<noteq> xp before \<and> xp u < 0 then Inl (ValidationError ''xp'')
      else if level u \<noteq> level before \<and> level u < 1 then Inl (ValidationError ''level'')
      else Inr u)"

record xp_result =
  newXP :: int
  newLevel :: int
  leveledUp :: bool
  xpAdded :: int

definition addXP :: "user \<Rightarrow> int \<Rightarrow> string \<Rightarrow> date \<Rightarrow> error + (user \<times> xp_result)" where
  "addXP u xpAmount reason today =
     (let u1 = u\<lparr>xp := xp u + xpAmount\<rparr>;
          (u2, leveledUp) = updateLevel u1;
          u3 = (if str_includes reason ''course'' \<or> str_includes reason ''gig''
                then updateStreak u2 today else u2)
      in case save_user u u3 of
           Inl e \<Rightarrow> Inl e
         | Inr u4 \<Rightarrow> Inr (u4, \<lparr>newXP = xp u4, newLevel = level u4,
                              leveledUp = leveledUp, xpAdded = xpAmount\<rparr>))"

text \<open>
  The day of an instant on the UTC calendar; used only to state properties about
  calendar days, the source never computes it.
\<close>

definition utcDay :: "date \<Rightarrow> int" where
  "utcDay t = t div msPerDay"

text \<open>Sample users.\<close>

definition user_fresh :: user where
  "user_fresh = \<lparr>user_id = 7, role = Learner, xp = 900, level = 1,
     streak = \<lparr>current = 0, longest = 0, lastActivityDate = None\<rparr>,
     badges = [], skills = [], enrolledCourses = [], gigsCompleted = 0,
     rating_average = 0, rating_count = 0\<rparr>"

definition user_level2 :: user where
  "user_level2 = user_fresh\<lparr>xp := 1500, level := 2\<rparr>"

definition user_streak3 :: "date \<Rightarrow> user" where
  "user_streak3 t = user_fresh\<lparr>streak := \<lparr>current = 3, longest = 3, lastActivityDate = Some t\<rparr>\<rparr>"

section \<open>Gig: applications and their lifecycle (models/Gig.js)\<close>

datatype application_status = Pending | Accepted | Rejected | Withdrawn

datatype gig_status = Draft | Posted | InProgress | Completed | Cancelled | Disputed

record application =
  app_id :: objectId
  applicantId :: objectId
  appliedAt :: date
  app_status :: application_status
  responseAt :: "date option"
  responseMessage :: "string option"

record gig =
  gig_id :: objectId
  title :: string
  clientId :: objectId
  budget_min :: int
  gig_status :: gig_status
  assignedTo :: "objectId option"
  assignedAt :: "date option"
  gig_completedAt :: "date option"
  applications :: "application list"
  maxApplications :: int
  expiresAt :: date
  clientRating :: "int option"
  workerRating :: "int option"
  clientFeedback :: "string option"
  workerFeedback :: "string option"

text \<open>
  \<open>String.prototype.trim\<close>, which the schema applies to \<open>responseMessage\<close>
  (\<open>trim: true\<close>): white space is removed at both ends.
\<close>

definition isWhiteSpace :: "char \<Rightarrow> bool" where
  "isWhiteSpace c = (c \<in> set [CHR '' '', CHR 0x09, CHR 0x0A, CHR 0x0B, CHR 0x0C, CHR 0x0D])"

definition trim :: "string \<Rightarrow> string" where
  "trim s = rev (dropWhile isWhiteSpace (rev (dropWhile isWhiteSpace s)))"

text \<open>
  \<open>this.applications.id(applicationId)\<close> yields the first subdocument with that
  \<open>_id\<close>, by reference: writing to it changes that element of the array.
\<close>

fun update_first :: "('a \<Rightarrow> bool) \<Rightarrow> ('a \<Rightarrow> 'a) \<Rightarrow> 'a list \<Rightarrow> 'a list" where
  "update_first P f [] = []"
| "update_first P f (x # xs) = (if P x then f x # xs else x # update_first P f xs)"

definition respond :: "application_status \<Rightarrow> date \<Rightarrow> string \<Rightarrow> application \<Rightarrow> application" where
  "respond st now msg a =
     a\<lparr>app_status := st, responseAt := Some now, responseMessage := Some (trim msg)\<rparr>"

text \<open>
  The \<open>forEach\<close> of \<open>updateApplicationStatus\<close>: every application with another
  \<open>_id\<close> that is still pending is rejected.
\<close>

definition rejectOthers :: "objectId \<Rightarrow> date \<Rightarrow> application list \<Rightarrow> application list" where
  "rejectOthers applicationId now apps =
     map (\<lambda>app. if app_id app \<noteq> applicationId \<and> app_status app = Pending
                then respond Rejected now ''Position has been filled'' app
                else app) apps"

text \<open>
  \<open>updateApplicationStatus\<close>, with \<open>now\<close> the value of the \<open>new Date()\<close> calls of
  one invocation. The result is the saved gig and the application returned.
\<close>

definition updateApplicationStatus ::
  "gig \<Rightarrow> objectId \<Rightarrow> application_status \<Rightarrow> string \<Rightarrow> date \<Rightarrow> error + (gig \<times> application)" where
  "updateApplicationStatus g applicationId status msg now =
     (case find (\<lambda>a. app_id a = applicationId) (applications g) of
        None \<Rightarrow> Inl (Error ''Application not found'')
      | Some application \<Rightarrow>
          (let application' = respond status now msg application;
               apps1 = update_first (\<lambda>a. app_id a = applicationId)
                         (respond status now msg) (applications g);
               g1 = g\<lparr>applications := apps1\<rparr>;
               g2 = (if status = Accepted
                     then g1\<lparr>assignedTo := Some (applicantId application'),
                             assignedAt := Some now,
                             gig_status := InProgress,
                             applications := rejectOthers applicationId now apps1\<rparr>
                     else g1)
           in Inr (g2, application')))"

text \<open>The number of applications of a gig that are accepted.\<close>

definition acceptedCount :: "gig \<Rightarrow> nat" where
  "acceptedCount g = length (filter (\<lambda>a. app_status a = Accepted) (applications g))"

text \<open>Sample gigs.\<close>

definition app_of :: "objectId \<Rightarrow> objectId \<Rightarrow> application_status \<Rightarrow> application" where
  "app_of i applicant st =
     \<lparr>app_id = i, applicantId = applicant, appliedAt = 0, app_status = st,
      responseAt = None, responseMessage = None\<rparr>"

definition gig_with :: "gig_status \<Rightarrow> application list \<Rightarrow> gig" where
  "gig_with st apps =
     \<lparr>gig_id = 1, title = ''Logo'', clientId = 50, budget_min = 3000, gig_status = st,
      assignedTo = None, assignedAt = None, gig_completedAt = None,
      applications = apps, maxApplications = 10, expiresAt = 1000,
      clientRating = None, workerRating = None, clientFeedback = None,
      workerFeedback = None\<rparr>"

definition gig_three_pending :: gig where
  "gig_three_pending =
     gig_with Posted [app_of 11 21 Pending, app_of 12 22 Pending, app_of 13 23 Pending]"

definition gig_one_rejected :: gig where
  "gig_one_rejected = gig_with Posted [app_of 11 21 Rejected]"

text \<open>
  What the acceptance of the application \<open>i\<close> is to do to each application of the
  gig, in the words of the specification: the application \<open>i\<close> becomes accepted,
  every other pending one is rejected with the fixed message, the rest are kept.
\<close>

definition acceptOutcome :: "objectId \<Rightarrow> date \<Rightarrow> string \<Rightarrow> application \<Rightarrow> application" where
  "acceptOutcome i now msg b =
     (if app_id b = i
      then b\<lparr>app_status := Accepted, responseAt := Some now, responseMessage := Some (trim msg)\<rparr>
      else if app_status b = Pending
      then b\<lparr>app_status := Rejected, responseAt := Some now,
              responseMessage := Some ''Position has been filled''\<rparr>
      else b)"

definition responded :: "application \<Rightarrow> application_status \<Rightarrow> date \<Rightarrow> string \<Rightarrow> application" where
  "responded a st t msg = a\<lparr>app_status := st, responseAt := Some t, responseMessage := Some msg\<rparr>"

text \<open>
  A gig with two pending applications, and the three gigs it becomes when the
  owner accepts application 11, then sets application 12 back to pending, then
  accepts application 12.
\<close>

definition gig_two_pending :: gig where
  "gig_two_pending = gig_with Posted [app_of 11 21 Pending, app_of 12 22 Pending]"

definition gig_step1 :: gig where
  "gig_step1 =
     (gig_with InProgress
        [responded (app_of 11 21 Pending) Accepted 5 ''ok'',
         responded (app_of 12 22 Pending) Rejected 5 ''Position has been filled''])
       \<lparr>assignedTo := Some 21, assignedAt := Some 5\<rparr>"

definition gig_step2 :: gig where
  "gig_step2 =
     (gig_with InProgress
        [responded (app_of 11 21 Pending) Accepted 5 ''ok'',
         responded (app_of 12 22 Pending) Pending 6 []])
       \<lparr>assignedTo := Some 21, assignedAt := Some 5\<rparr>"

definition gig_step3 :: gig where
  "gig_step3 =
     (gig_with InProgress
        [responded (app_of 11 21 Pending) Accepted 5 ''ok'',
         responded (app_of 12 22 Pending) Accepted 7 []])
       \<lparr>assignedTo := Some 22, assignedAt := Some 7\<rparr>"

section \<open>Course progress (models/Progress.js)\<close>

datatype module_status = ModNotStarted | ModInProgress | ModCompleted | ModSkipped

datatype progress_status = NotStarted | Started | Finished | Abandoned

text \<open>
  \<open>Started\<close> is the status \<open>'in-progress'\<close> and \<open>Finished\<close> the status \<open>'completed'\<close>
  of a progress document (the names \<open>InProgress\<close> and \<open>Completed\<close> are those of a gig).
\<close>

record module_progress =
  moduleId :: objectId
  mp_status :: module_status
  mp_startedAt :: "date option"
  mp_completedAt :: "date option"
  mp_timeSpent :: int
  mp_notes :: "string option"
  mp_bookmarked :: bool

record quiz_attempt =
  attemptNumber :: int
  qa_startedAt :: date
  qa_completedAt :: date
  qa_timeSpent :: int
  score :: int
  totalPoints :: int
  maxPoints :: int
  passed :: bool

record progress =
  p_userId :: objectId
  p_courseId :: objectId
  status :: progress_status
  progressPercentage :: int
  startedAt :: "date option"
  completedAt :: "date option"
  lastAccessedAt :: date
  modulesProgress :: "module_progress list"
  quizAttempts :: "quiz_attempt list"
  bestQuizScore :: int
  quizPassed :: bool

text \<open>The parts of a course document that the progress computation reads.\<close>

record course_module =
  module_id :: objectId
  module_title :: string
  module_xpReward :: int

record quiz =
  passingScore :: int
  attemptsAllowed :: int
  quiz_xpReward :: int

record course =
  course_id :: objectId
  course_title :: string
  modules :: "course_module list"
  course_quiz :: "quiz option"
  badgeGranted :: "objectId option"
  course_xpReward :: int
  completionCount :: int

text \<open>
  What the quiz route passes to \<open>recordQuizAttempt\<close>: the attempt without its
  number. The route computes \<open>score = Math.round((totalPoints / maxPoints) * 100)\<close>
  and \<open>passed = score >= (course.quiz.passingScore || 70)\<close>.
\<close>

record quiz_data =
  qd_startedAt :: date
  qd_completedAt :: date
  qd_timeSpent :: int
  qd_score :: int
  qd_totalPoints :: int
  qd_maxPoints :: int
  qd_passed :: bool

definition quizScore :: "int \<Rightarrow> int \<Rightarrow> int" where
  "quizScore earned maxp = Math_round (num_mul (num_div (of_int earned) (of_int maxp)) 100)"

definition quizPassedFlag :: "quiz \<Rightarrow> int \<Rightarrow> bool" where
  "quizPassedFlag q s = (s \<ge> (if passingScore q = 0 then 70 else passingScore q))"

definition quizData :: "quiz \<Rightarrow> int \<Rightarrow> int \<Rightarrow> int \<Rightarrow> date \<Rightarrow> quiz_data" where
  "quizData q earned maxp spent now =
     \<lparr>qd_startedAt = now - spent * 1000, qd_completedAt = now, qd_timeSpent = spent,
      qd_score = quizScore earned maxp, qd_totalPoints = earned, qd_maxPoints = maxp,
      qd_passed = quizPassedFlag q (quizScore earned maxp)\<rparr>"

text \<open>
  \<open>save()\<close> of a progress document: the validators of the paths the methods below
  write are \<open>min: 0, max: 100\<close> on \<open>progressPercentage\<close>, on \<open>bestQuizScore\<close> and on
  the \<open>score\<close> of an attempt.
\<close>

definition save_progress :: "progress \<Rightarrow> error + progress" where
  "save_progress p =
     (if progressPercentage p < 0 \<or> 100 < progressPercentage p
      then Inl (ValidationError ''progressPercentage'')
      else if bestQuizScore p < 0 \<or> 100 < bestQuizScore p
      then Inl (ValidationError ''bestQuizScore'')
      else if list_ex (\<lambda>a. score a < 0 \<or> 100 < score a) (quizAttempts p)
      then Inl (ValidationError ''quizAttempts.score'')
      else Inr p)"

text \<open>
  \<open>recordQuizAttempt\<close>, with \<open>now\<close> the value of \<open>new Date()\<close>. The result is the
  saved document and the attempt.
\<close>

definition recordQuizAttempt :: "progress \<Rightarrow> quiz_data \<Rightarrow> date \<Rightarrow> error + (progress \<times> quiz_attempt)" where
  "recordQuizAttempt p qd now =
     (let attempt = \<lparr>attemptNumber = int (length (quizAttempts p)) + 1,
                      qa_startedAt = qd_startedAt qd, qa_completedAt = qd_completedAt qd,
                      qa_timeSpent = qd_timeSpent qd, score = qd_score qd,
                      totalPoints = qd_totalPoints qd, maxPoints = qd_maxPoints qd,
                      passed = qd_passed qd\<rparr>;
          p1 = p\<lparr>quizAttempts := quizAttempts p @ [attempt]\<rparr>;
          p2 = (if score attempt > bestQuizScore p1
                then p1\<lparr>bestQuizScore := score attempt\<rparr> else p1);
          passingScore = 70;
          p3 = p2\<lparr>quizPassed := (score attempt \<ge> passingScore)\<rparr>;
          p4 = p3\<lparr>lastAccessedAt := now\<rparr>
      in case save_progress p4 of Inl e \<Rightarrow> Inl e | Inr p5 \<Rightarrow> Inr (p5, attempt))"

text \<open>
  \<open>calculateOverallProgress\<close>. The course is the result of \<open>Course.findById\<close>; when
  there is none the method returns without writing and without a value.
\<close>

definition completedModules :: "progress \<Rightarrow> nat" where
  "completedModules p = length (filter (\<lambda>m. mp_status m = ModCompleted) (modulesProgress p))"

definition rawPercentage :: "progress \<Rightarrow> course \<Rightarrow> rat" where
  "rawPercentage p c =
     (let totalModules = length (modules c);
          completed = completedModules p
      in if totalModules > 0
         then (if course_quiz c \<noteq> None
               then (let moduleProgress =
                           num_mul (num_div (of_nat completed) (of_nat totalModules)) 80;
                         quizProgress = (if quizPassed p then 20 else 0)
                     in num_add moduleProgress quizProgress)
               else num_mul (num_div (of_nat completed) (of_nat totalModules)) 100)
         else 0)"


definition calculateOverallProgress :: "progress \<Rightarrow> course option \<Rightarrow> date \<Rightarrow> progress \<times> int option" where
  "calculateOverallProgress p co now =
     (case co of
        None \<Rightarrow> (p, None)
      | Some c \<Rightarrow>
          (let p1 = p\<lparr>progressPercentage := Math_round (rawPercentage p c)\<rparr>;
               p2 = (if progressPercentage p1 = 100
                     then (let q = p1\<lparr>status := Finished\<rparr>
                           in if completedAt q = None then q\<lparr>completedAt := Some now\<rparr> else q)
                     else if progressPercentage p1 > 0
                     then (let q = p1\<lparr>status := Started\<rparr>
                           in if startedAt q = None then q\<lparr>startedAt := Some now\<rparr> else q)
                     else p1)
           in (p2, Some (progressPercentage p2))))"

text \<open>
  The update object that the module route builds: \<open>completedAt\<close> and \<open>startedAt\<close>
  are keys of it only under the route's conditions, so \<open>None\<close> is an absent key.
\<close>

record module_update =
  u_status :: module_status
  u_timeSpent :: int
  u_notes :: "string option"
  u_bookmarked :: bool
  u_completedAt :: "date option"
  u_startedAt :: "date option"

text \<open>
  For a module without an entry the object \<open>{ moduleId, ...updates }\<close> is pushed and
  returned; the pushed copy is cast by the schema, which trims the notes. For a
  module with an entry \<open>Object.assign\<close> writes the keys of the update to it.
\<close>

definition newModuleProgress :: "objectId \<Rightarrow> module_update \<Rightarrow> module_progress" where
  "newModuleProgress mid u =
     \<lparr>moduleId = mid, mp_status = u_status u, mp_startedAt = u_startedAt u,
      mp_completedAt = u_completedAt u, mp_timeSpent = u_timeSpent u,
      mp_notes = u_notes u, mp_bookmarked = u_bookmarked u\<rparr>"

definition castModuleProgress :: "module_progress \<Rightarrow> module_progress" where
  "castModuleProgress m = m\<lparr>mp_notes := map_option trim (mp_notes m)\<rparr>"

definition assignModuleProgress :: "module_update \<Rightarrow> module_progress \<Rightarrow> module_progress" where
  "assignModuleProgress u m =
     m\<lparr>mp_status := u_status u, mp_timeSpent := u_timeSpent u,
       mp_notes := map_option trim (u_notes u), mp_bookmarked := u_bookmarked u,
       mp_completedAt := (case u_completedAt u of None \<Rightarrow> mp_completedAt m | Some t \<Rightarrow> Some t),
       mp_startedAt := (case u_startedAt u of None \<Rightarrow> mp_startedAt m | Some t \<Rightarrow> Some t)\<rparr>"

definition updateModuleProgress ::
  "progress \<Rightarrow> objectId \<Rightarrow> module_update \<Rightarrow> course option \<Rightarrow> date
     \<Rightarrow> error + (progress \<times> module_progress)" where
  "updateModuleProgress p mid u co now =
     (let (p1, moduleProgress) =
            (case find (\<lambda>m. moduleId m = mid) (modulesProgress p) of
               None \<Rightarrow> (p\<lparr>modulesProgress :=
                               modulesProgress p @ [castModuleProgress (newModuleProgress mid u)]\<rparr>,
                         newModuleProgress mid u)
             | Some m \<Rightarrow> (p\<lparr>modulesProgress :=
                               update_first (\<lambda>m. moduleId m = mid) (assignModuleProgress u)
                                 (modulesProgress p)\<rparr>,
                           assignModuleProgress u m));
          p2 = p1\<lparr>lastAccessedAt := now\<rparr>;
          (p3, pct) = calculateOverallProgress p2 co now
      in case save_progress p3 of Inl e \<Rightarrow> Inl e | Inr p4 \<Rightarrow> Inr (p4, moduleProgress))"

definition markCompleted :: "progress \<Rightarrow> date \<Rightarrow> error + progress" where
  "markCompleted p now =
     save_progress (p\<lparr>status := Finished, progressPercentage := 100, completedAt := Some now\<rparr>)"

section \<open>Badges (the Badge model, in models/Gig.js)\<close>

record badge =
  badge_id :: objectId
  badge_name :: string
  isActive :: bool
  availableFrom :: date
  availableUntil :: "date option"
  prerequisites :: "objectId list"
  criteria :: "criterion list"
  xpReward :: int
  earnedCount :: int

text \<open>\<open>String.prototype.toLowerCase\<close>, on the letters A to Z.\<close>

definition toLowerChar :: "char \<Rightarrow> char" where
  "toLowerChar c =
     (let n = (of_char c :: nat) in if 65 \<le> n \<and> n \<le> 90 then char_of (n + 32) else c)"

definition toLowerCase :: "string \<Rightarrow> string" where
  "toLowerCase s = map toLowerChar s"

text \<open>\<open>levelOrder.indexOf\<close>, with \<open>-1\<close> for a level that is not in the list.\<close>

fun levelIndex :: "skill_level option \<Rightarrow> int" where
  "levelIndex (Some Beginner) = 0"
| "levelIndex (Some Intermediate) = 1"
| "levelIndex (Some Advanced) = 2"
| "levelIndex None = - 1"

text \<open>
  \<open>checkCriterion\<close>: the field \<open>meets\<close> of its result. The fields \<open>reason\<close> and
  \<open>progress\<close> are formatted text and a ratio for display; no decision reads them.
\<close>

fun checkCriterion :: "user \<Rightarrow> criterion \<Rightarrow> bool" where
  "checkCriterion u (CourseCompletionOf cid) =
     (find (\<lambda>c. ec_courseId c = cid \<and> ec_completed c) (enrolledCourses u) \<noteq> None)"
| "checkCriterion u (CourseCompletionCount n) =
     (of_nat (length (filter ec_completed (enrolledCourses u))) \<ge> n)"
| "checkCriterion u CourseCompletionOther = False"
| "checkCriterion u (SkillLevel name requiredLevel) =
     (let skill = find (\<lambda>s. toLowerCase (skill_name s) = toLowerCase name) (skills u);
          userLevelIndex = (case skill of None \<Rightarrow> - 1
                            | Some s \<Rightarrow> levelIndex (Some (skill_level s)));
          requiredLevelIndex = levelIndex requiredLevel
      in userLevelIndex \<ge> requiredLevelIndex)"
| "checkCriterion u (GigCompletion n) = (of_int (gigsCompleted u) \<ge> n)"
| "checkCriterion u (RatingThreshold r) = (rating_average u \<ge> r)"
| "checkCriterion u (XpThreshold x) = (of_int (xp u) \<ge> x)"
| "checkCriterion u (StreakDays d) = (of_int (current (streak u)) \<ge> d)"
| "checkCriterion u OtherCriterion = False"

datatype eligibility = Eligible | NotEligible ineligibility

text \<open>\<open>checkEligibility\<close>, with \<open>now\<close> the value of \<open>new Date()\<close>.\<close>

definition checkEligibility :: "badge \<Rightarrow> user \<Rightarrow> date \<Rightarrow> eligibility" where
  "checkEligibility b u now =
     (if \<not> isActive b then NotEligible BadgeNotActive
      else if availableFrom b > now then NotEligible BadgeNotYetAvailable
      else if (case availableUntil b of None \<Rightarrow> False | Some t \<Rightarrow> t < now)
      then NotEligible BadgeAvailabilityExpired
      else if length (prerequisites b) > 0
              \<and> \<not> list_all (\<lambda>prereq. prereq \<in> set (map badgeId (badges u))) (prerequisites b)
      then NotEligible PrerequisitesNotMet
      else if list_ex (\<lambda>e. badgeId e = badge_id b) (badges u)
      then NotEligible BadgeAlreadyEarned
      else (case find (\<lambda>c. \<not> checkCriterion u c) (criteria b) of
              Some c \<Rightarrow> NotEligible (CriterionNotMet c)
            | None \<Rightarrow> Eligible))"

text \<open>
  \<open>addBadge\<close> (models/User.js): the badge is pushed unless an entry with the same
  badge id, and with the same course id when one is given, is there already. The
  result says whether it was pushed. No path it writes has a validator.
\<close>

definition addBadge :: "user \<Rightarrow> objectId \<Rightarrow> objectId option \<Rightarrow> user \<times> bool" where
  "addBadge u bid cid =
     (case find (\<lambda>e. badgeId e = bid \<and> (cid = None \<or> eb_courseId e = cid)) (badges u) of
        None \<Rightarrow> (u\<lparr>badges := badges u @ [\<lparr>badgeId = bid, eb_courseId = cid\<rparr>]\<rparr>, True)
      | Some e \<Rightarrow> (u, False))"

text \<open>\<open>save()\<close> of a badge: \<open>earnedCount\<close> carries the validator \<open>min: 0\<close>.\<close>

definition save_badge :: "badge \<Rightarrow> error + badge" where
  "save_badge b = (if earnedCount b < 0 then Inl (ValidationError ''earnedCount'') else Inr b)"

text \<open>
  \<open>awardToUser\<close>. The result is the user and the badge as saved, and the XP
  awarded.
\<close>

definition awardToUser ::
  "badge \<Rightarrow> user \<Rightarrow> objectId option \<Rightarrow> date \<Rightarrow> error + (user \<times> badge \<times> int)" where
  "awardToUser b u cid now =
     (case checkEligibility b u now of
        NotEligible r \<Rightarrow> Inl (Ineligible r)
      | Eligible \<Rightarrow>
          (let (u1, added) = addBadge u (badge_id b) cid
           in case (if xpReward b > 0
                    then map_sum id fst (addXP u1 (xpReward b) (''Badge earned: '' @ badge_name b) now)
                    else Inr u1) of
                Inl e \<Rightarrow> Inl e
              | Inr u2 \<Rightarrow>
                  (case save_badge (b\<lparr>earnedCount := earnedCount b + 1\<rparr>) of
                     Inl e \<Rightarrow> Inl e
                   | Inr b1 \<Rightarrow> Inr (u2, b1, xpReward b))))"

text \<open>A sample badge: 1000 XP are required, 100 XP are awarded.\<close>

definition badge_sample :: badge where
  "badge_sample =
     \<lparr>badge_id = 3, badge_name = ''Rising star'', isActive = True, availableFrom = 0,
      availableUntil = None, prerequisites = [], criteria = [XpThreshold 1000],
      xpReward = 100, earnedCount = 4\<rparr>"

definition user_awarded :: user where
  "user_awarded =
     user_level2\<lparr>xp := 1600, badges := [\<lparr>badgeId = 3, eb_courseId = Some 8\<rparr>]\<rparr>"

section \<open>The module progress route (routes/badges.js, PUT /:id/modules/:moduleId/progress)\<close>

text \<open>
  The request body after destructuring with its defaults, and the documents the
  route touches: the progress of the user in the course, the user, the course
  (as stored, with its completion counter) and the badge the course grants.
\<close>

record module_body =
  b_status :: module_status
  b_timeSpent :: int
  b_notes :: "string option"
  b_bookmarked :: bool

record route_state =
  rs_progress :: progress
  rs_user :: user
  rs_course :: "course option"
  rs_badge :: "badge option"

definition moduleUpdate :: "progress \<Rightarrow> objectId \<Rightarrow> module_body \<Rightarrow> date \<Rightarrow> module_update" where
  "moduleUpdate p mid body now =
     \<lparr>u_status = b_status body, u_timeSpent = b_timeSpent body, u_notes = b_notes body,
      u_bookmarked = b_bookmarked body,
      u_completedAt = (if b_status body = ModCompleted then Some now else None),
      u_startedAt =
        (if b_status body = ModInProgress
            \<and> (case find (\<lambda>m. moduleId m = mid) (modulesProgress p) of
                  None \<Rightarrow> True | Some m \<Rightarrow> mp_startedAt m = None)
         then Some now else None)\<rparr>"

text \<open>\<open>x || d\<close> on a number: the default replaces zero.\<close>

definition orDefault :: "int \<Rightarrow> int \<Rightarrow> int" where
  "orDefault x d = (if x = 0 then d else x)"

text \<open>
  The badge award of the route is wrapped in \<open>try\<close>/\<open>catch\<close>: a failure is logged
  and the route goes on.
\<close>

definition awardCourseBadge :: "course \<Rightarrow> badge option \<Rightarrow> user \<Rightarrow> date \<Rightarrow> user \<times> badge option" where
  "awardCourseBadge c bo u now =
     (case badgeGranted c of
        None \<Rightarrow> (u, bo)
      | Some bid \<Rightarrow>
          (case bo of
             None \<Rightarrow> (u, bo)
           | Some b \<Rightarrow>
               (case awardToUser b u (Some (course_id c)) now of
                  Inl e \<Rightarrow> (u, bo)
                | Inr (u1, b1, x) \<Rightarrow> (u1, Some b1))))"

definition courseCompletion ::
  "progress \<Rightarrow> user \<Rightarrow> course \<Rightarrow> badge option \<Rightarrow> date \<Rightarrow> error + route_state" where
  "courseCompletion p u c bo now =
     (case markCompleted p now of
        Inl e \<Rightarrow> Inl e
      | Inr p1 \<Rightarrow>
          (let c1 = c\<lparr>completionCount := completionCount c + 1\<rparr>
           in case addXP u (orDefault (course_xpReward c) 500)
                     (''Course completed: '' @ course_title c) now of
                Inl e \<Rightarrow> Inl e
              | Inr (u1, r) \<Rightarrow>
                  (let (u2, bo1) = awardCourseBadge c bo u1 now
                   in Inr \<lparr>rs_progress = p1, rs_user = u2, rs_course = Some c1,
                           rs_badge = bo1\<rparr>)))"

definition moduleProgressRoute ::
  "progress option \<Rightarrow> course option \<Rightarrow> badge option \<Rightarrow> user \<Rightarrow> objectId \<Rightarrow> module_body \<Rightarrow> date
     \<Rightarrow> error + route_state" where
  "moduleProgressRoute po co bo u mid body now =
     (case po of
        None \<Rightarrow> Inl (HttpReply 404 ''Not enrolled in this course'')
      | Some p \<Rightarrow>
          (case updateModuleProgress p mid (moduleUpdate p mid body now) co now of
             Inl e \<Rightarrow> Inl e
           | Inr (p1, moduleProgress) \<Rightarrow>
               if b_status body \<noteq> ModCompleted
               then Inr \<lparr>rs_progress = p1, rs_user = u, rs_course = co, rs_badge = bo\<rparr>
               else
                 (case co of
                    None \<Rightarrow> Inl (Error ''TypeError'')
                  | Some c \<Rightarrow>
                      (case (case find (\<lambda>m. module_id m = mid) (modules c) of
                               None \<Rightarrow> Inr u
                             | Some m \<Rightarrow>
                                 map_sum id fst
                                   (addXP u (orDefault (module_xpReward m) 50)
                                      (''Module completed: '' @ module_title m) now)) of
                         Inl e \<Rightarrow> Inl e
                       | Inr u1 \<Rightarrow>
                           if progressPercentage p1 = 100
                           then courseCompletion p1 u1 c bo now
                           else Inr \<lparr>rs_progress = p1, rs_user = u1, rs_course = co,
                                     rs_badge = bo\<rparr>))))"

text \<open>
  Sample documents: a course of one module without a quiz and a course of four,
  the progress of a user as created at enrolment (the schema defaults), and the
  progress of a user who completed the one-module course at instant 100.
\<close>

definition course_one :: course where
  "course_one =
     \<lparr>course_id = 8, course_title = ''Basics'',
      modules = [\<lparr>module_id = 1, module_title = ''Intro'', module_xpReward = 50\<rparr>],
      course_quiz = None, badgeGranted = None, course_xpReward = 500, completionCount = 0\<rparr>"

definition course_four :: course where
  "course_four =
     course_one\<lparr>modules :=
       [\<lparr>module_id = 1, module_title = ''One'', module_xpReward = 50\<rparr>,
        \<lparr>module_id = 2, module_title = ''Two'', module_xpReward = 50\<rparr>,
        \<lparr>module_id = 3, module_title = ''Three'', module_xpReward = 50\<rparr>,
        \<lparr>module_id = 4, module_title = ''Four'', module_xpReward = 50\<rparr>]\<rparr>"

definition progress_enrolled :: progress where
  "progress_enrolled =
     \<lparr>p_userId = 7, p_courseId = 8, status = Started, progressPercentage = 0,
      startedAt = None, completedAt = None, lastAccessedAt = 0, modulesProgress = [],
      quizAttempts = [], bestQuizScore = 0, quizPassed = False\<rparr>"

definition module_done :: "objectId \<Rightarrow> date \<Rightarrow> module_progress" where
  "module_done mid t =
     \<lparr>moduleId = mid, mp_status = ModCompleted, mp_startedAt = None, mp_completedAt = Some t,
      mp_timeSpent = 0, mp_notes = None, mp_bookmarked = False\<rparr>"

definition progress_completed :: progress where
  "progress_completed =
     progress_enrolled\<lparr>status := Finished, progressPercentage := 100,
       completedAt := Some 100, lastAccessedAt := 100, modulesProgress := [module_done 1 100]\<rparr>"

definition body_of :: "module_status \<Rightarrow> module_body" where
  "body_of st = \<lparr>b_status = st, b_timeSpent = 0, b_notes = None, b_bookmarked = False\<rparr>"

definition progress_passed :: progress where
  "progress_passed = progress_enrolled\<lparr>bestQuizScore := 90, quizPassed := True\<rparr>"

definition quiz_sample :: quiz where
  "quiz_sample = \<lparr>passingScore = 50, attemptsAllowed = 3, quiz_xpReward = 100\<rparr>"



text \<open>
  One request that marks a module completed, on the documents a previous request
  left; and the percentage, the status and \<open>completedAt\<close> of the progress in a
  result.
\<close>

definition completeModule :: "objectId \<Rightarrow> date \<Rightarrow> route_state \<Rightarrow> error + route_state" where
  "completeModule mid t s =
     moduleProgressRoute (Some (rs_progress s)) (rs_course s) (rs_badge s) (rs_user s) mid
       (body_of ModCompleted) t"

definition progressSummary ::
  "error + route_state \<Rightarrow> (int \<times> progress_status \<times> date option) option" where
  "progressSummary x =
     (case x of
        Inl e \<Rightarrow> None
      | Inr s \<Rightarrow> Some (progressPercentage (rs_progress s), status (rs_progress s),
                        completedAt (rs_progress s)))"

section \<open>The gig collection and the completion route (PUT /:id/complete)\<close>

text \<open>
  The hooks \<open>pre('find')\<close> and \<open>pre('findOne')\<close> add the condition
  \<open>expiresAt > new Date()\<close> to every query of these kinds; \<open>findById(id)\<close> is
  \<open>findOne\<close> on the id and runs the same hook. The collection is the list of the
  stored gigs, a query the predicate it selects by, \<open>now\<close> the value of
  \<open>new Date()\<close> in the hook.
\<close>

definition Gig_find :: "gig list \<Rightarrow> (gig \<Rightarrow> bool) \<Rightarrow> date \<Rightarrow> gig list" where
  "Gig_find db query now = filter (\<lambda>g. query g \<and> expiresAt g > now) db"

definition Gig_findOne :: "gig list \<Rightarrow> (gig \<Rightarrow> bool) \<Rightarrow> date \<Rightarrow> gig option" where
  "Gig_findOne db query now = find (\<lambda>g. query g \<and> expiresAt g > now) db"

definition Gig_findById :: "gig list \<Rightarrow> objectId \<Rightarrow> date \<Rightarrow> gig option" where
  "Gig_findById db i now = Gig_findOne db (\<lambda>g. gig_id g = i) now"

text \<open>The ratings and feedback of the request body; \<open>None\<close> is an absent rating.\<close>

record complete_body =
  cb_clientRating :: "int option"
  cb_clientFeedback :: string
  cb_workerRating :: "int option"
  cb_workerFeedback :: string

text \<open>A rating or a feedback is stored when it is truthy: present and not zero, not empty.\<close>

definition truthyRating :: "int option \<Rightarrow> bool" where
  "truthyRating r = (case r of None \<Rightarrow> False | Some n \<Rightarrow> n \<noteq> 0)"

definition save_gig :: "gig \<Rightarrow> error + gig" where
  "save_gig g =
     (if (case clientRating g of None \<Rightarrow> False | Some n \<Rightarrow> n < 1 \<or> 5 < n)
      then Inl (ValidationError ''rating.clientRating'')
      else if (case workerRating g of None \<Rightarrow> False | Some n \<Rightarrow> n < 1 \<or> 5 < n)
      then Inl (ValidationError ''rating.workerRating'')
      else Inr g)"

definition completeGig :: "gig \<Rightarrow> complete_body \<Rightarrow> date \<Rightarrow> error + gig" where
  "completeGig g body now =
     (let g1 = g\<lparr>gig_status := Completed, gig_completedAt := Some now\<rparr>;
          g2 = (if truthyRating (cb_clientRating body)
                then g1\<lparr>clientRating := cb_clientRating body\<rparr> else g1);
          g3 = (if cb_clientFeedback body \<noteq> []
                then g2\<lparr>clientFeedback := Some (cb_clientFeedback body)\<rparr> else g2);
          g4 = (if truthyRating (cb_workerRating body)
                then g3\<lparr>workerRating := cb_workerRating body\<rparr> else g3);
          g5 = (if cb_workerFeedback body \<noteq> []
                then g4\<lparr>workerFeedback := Some (cb_workerFeedback body)\<rparr> else g4)
      in save_gig g5)"

text \<open>\<open>updateRating\<close> (models/User.js): the running average, rounded to one decimal.\<close>

definition updateRating :: "user \<Rightarrow> int \<Rightarrow> user" where
  "updateRating u newRating =
     (let totalRating =
            num_add (num_mul (rating_average u) (of_int (rating_count u))) (of_int newRating);
          n = rating_count u + 1
      in u\<lparr>rating_count := n,
           rating_average :=
             num_div (of_int (Math_round (num_mul (num_div totalRating (of_int n)) 10))) 10\<rparr>)"

text \<open>
  The worker's part of the route: the completion counter, the rating and the XP
  for the gig, \<open>Math.max(200, Math.floor(gig.budget.min * 0.1))\<close>. The counter
  and the rating are saved with the XP; their validators (\<open>min: 0\<close>, and
  \<open>max: 5\<close> on the average) hold of the new values whenever they held of the old
  ones and the rating passed the validation of the gig.
\<close>

definition creditWorker :: "user \<Rightarrow> gig \<Rightarrow> complete_body \<Rightarrow> date \<Rightarrow> error + user" where
  "creditWorker worker g body now =
     (let w1 = worker\<lparr>gigsCompleted := gigsCompleted worker + 1\<rparr>;
          w2 = (case cb_clientRating body of
                  None \<Rightarrow> w1
                | Some r \<Rightarrow> if r \<noteq> 0 then updateRating w1 r else w1);
          xpReward = max 200 \<lfloor>num_mul (of_int (budget_min g)) (toDouble (1 / 10))\<rfloor>
      in map_sum id fst (addXP w2 xpReward (''Gig completed: '' @ title g) now))"

text \<open>
  The route. The gig is looked up with \<open>findById\<close>; the assigned worker is
  populated from the users, so an assignee who is no user counts as none. The
  result is the gig as saved and the worker as saved, when there is one.
\<close>

definition completeGigRoute ::
  "gig list \<Rightarrow> user list \<Rightarrow> user \<Rightarrow> objectId \<Rightarrow> complete_body \<Rightarrow> date
     \<Rightarrow> error + (gig \<times> user option)" where
  "completeGigRoute db users reqUser i body now =
     (case Gig_findById db i now of
        None \<Rightarrow> Inl (AppError ''Gig not found'' 404)
      | Some g \<Rightarrow>
          if clientId g \<noteq> user_id reqUser \<and> role reqUser \<noteq> Admin
          then Inl (AppError ''Not authorized to complete this gig'' 403)
          else if gig_status g \<noteq> InProgress
          then Inl (HttpReply 400 ''Gig must be in progress to complete'')
          else
            (case completeGig g body now of
               Inl e \<Rightarrow> Inl e
             | Inr g1 \<Rightarrow>
                 (case (case assignedTo g1 of
                          None \<Rightarrow> None
                        | Some w \<Rightarrow> find (\<lambda>u. user_id u = w) users) of
                    None \<Rightarrow> Inr (g1, None)
                  | Some worker \<Rightarrow>
                      (case creditWorker worker g1 body now of
                         Inl e \<Rightarrow> Inl e
                       | Inr w1 \<Rightarrow> Inr (g1, Some w1)))))"

text \<open>A gig in progress that expires at instant 1000, its owner and its worker.\<close>

definition gig_in_progress :: gig where
  "gig_in_progress =
     (gig_with InProgress [responded (app_of 11 21 Pending) Accepted 5 ''ok''])
       \<lparr>assignedTo := Some 21, assignedAt := Some 5\<rparr>"

definition user_owner :: user where
  "user_owner = user_fresh\<lparr>user_id := 50, role := Business\<rparr>"

definition user_worker :: user where
  "user_worker = user_fresh\<lparr>user_id := 21\<rparr>"

definition body_none :: complete_body where
  "body_none = \<lparr>cb_clientRating = None, cb_clientFeedback = [], cb_workerRating = None,
                cb_workerFeedback = []\<rparr>"

section \<open>Properties of the user operations\<close>

lemma updateStreak_xp [simp]: "xp (updateStreak u t) = xp u"
  by (simp add: updateStreak_def Let_def split: option.splits)

lemma updateStreak_level [simp]: "level (updateStreak u t) = level u"
  by (simp add: updateStreak_def Let_def split: option.splits)

text \<open>
  C1. For a user with \<open>xp \<ge> 0\<close> and \<open>level = floor(xp/1000) + 1\<close> and an amount
  \<open>\<ge> 0\<close>, \<open>addXP\<close> returns, with \<open>newXP\<close> the old xp plus the amount, \<open>newLevel =
  floor(newXP/1000) + 1\<close> and \<open>leveledUp\<close> true exactly when the new level exceeds
  the old one; the level never decreases.
\<close>

theorem addXP_level:
  assumes "0 \<le> xp u" and "level u = xp u div 1000 + 1" and "0 \<le> amount"
  shows "\<exists>u' r. addXP u amount reason today = Inr (u', r)
           \<and> newXP r = xp u + amount \<and> xp u' = newXP r
           \<and> newLevel r = newXP r div 1000 + 1 \<and> level u' = newLevel r
           \<and> (leveledUp r \<longleftrightarrow> newLevel r > level u)
           \<and> level u \<le> newLevel r"
proof -
  have mono: "xp u div 1000 \<le> (xp u + amount) div 1000"
    using assms(3) by (simp add: zdiv_mono1)
  show ?thesis
    using assms mono
    by (auto simp: addXP_def updateLevel_def save_user_def Let_def)
qed

theorem addXP_level_witness:
  "\<exists>u' r. addXP user_fresh 150 ''Gig accepted: Logo'' 1000 = Inr (u', r)
     \<and> newXP r = 1050 \<and> xp u' = 1050 \<and> newLevel r = 2 \<and> level u' = 2 \<and> leveledUp r"
  using addXP_level [of user_fresh 150 "''Gig accepted: Logo''" 1000]
  by (auto simp: user_fresh_def)

text \<open>
  C9, as stated, at a concrete input: a user at 1500 xp and level 2 receives the
  amount -1000. The call returns normally and the xp drops to 500.
\<close>

theorem addXP_negative_counterexample:
  "addXP user_level2 (- 1000) ''General activity'' 0
     = Inr (user_level2\<lparr>xp := 500\<rparr>,
            \<lparr>newXP = 500, newLevel = 2, leveledUp = False, xpAdded = - 1000\<rparr>)"
  by (simp add: addXP_def updateLevel_def save_user_def user_level2_def user_fresh_def Let_def)

text \<open>
  C9, amended. \<open>addXP\<close> does not inspect the sign of the amount. For a negative
  amount that keeps the xp non-negative it returns normally: the xp is lowered by
  the amount and the level is never lowered (it is the larger of the old level and
  the level of the new xp). Only when the sum would be negative does the call
  fail, on \<open>save()\<close>, through the schema validator of \<open>xp\<close>.
\<close>

theorem addXP_negative:
  assumes "amount < 0"
  shows "(0 \<le> xp u + amount \<longrightarrow>
            (\<exists>u' r. addXP u amount reason today = Inr (u', r)
               \<and> xp u' = xp u + amount \<and> newXP r = xp u + amount
               \<and> level u' = max (level u) ((xp u + amount) div 1000 + 1)
               \<and> newLevel r = level u'
               \<and> (leveledUp r \<longleftrightarrow> level u < (xp u + amount) div 1000 + 1)))
       \<and> (xp u + amount < 0 \<longrightarrow>
            addXP u amount reason today = Inl (ValidationError ''xp''))"
  using assms
  by (auto simp: addXP_def updateLevel_def save_user_def Let_def)

theorem addXP_negative_witness:
  "(\<exists>u' r. addXP user_level2 (- 1000) ''General activity'' 0 = Inr (u', r)
       \<and> xp u' = 500 \<and> level u' = 2 \<and> \<not> leveledUp r)
   \<and> addXP user_level2 (- 2000) ''General activity'' 0 = Inl (ValidationError ''xp'')"
  using addXP_negative [of "- 1000" user_level2 "''General activity''" 0]
        addXP_negative [of "- 2000" user_level2 "''General activity''" 0]
  by (auto simp: user_level2_def user_fresh_def)

text \<open>
  C7, evaluated. Two activities one minute apart on the same calendar day (noon
  and 12:01 of day 0) raise the streak from 3 to 4, where the claim has it
  unchanged; and an activity on the next calendar day, but more than 24 hours
  later (00:01 of day 0, then 23:59 of day 1), resets the streak to 1, where the
  claim has it incremented.
\<close>

theorem updateStreak_elapsed_time:
  "utcDay 43260000 = utcDay 43200000
   \<and> streak (updateStreak (user_streak3 43200000) 43260000)
       = \<lparr>current = 4, longest = 4, lastActivityDate = Some 43260000\<rparr>
   \<and> utcDay 172740000 = utcDay 60000 + 1
   \<and> streak (updateStreak (user_streak3 60000) 172740000)
       = \<lparr>current = 1, longest = 3, lastActivityDate = Some 172740000\<rparr>"
  by code_simp

section \<open>Properties of the application lifecycle\<close>

lemma find_by_id:
  "distinct (map app_id xs) \<Longrightarrow> a \<in> set xs \<Longrightarrow> find (\<lambda>x. app_id x = app_id a) xs = Some a"
proof (induction xs)
  case Nil
  then show ?case by simp
next
  case (Cons x xs)
  then show ?case by (cases "x = a") (auto simp: image_iff)
qed

lemma find_absent:
  "\<forall>b\<in>set xs. app_id b \<noteq> i \<Longrightarrow> find (\<lambda>x. app_id x = i) xs = None"
  by (induction xs) auto

lemma update_first_by_id:
  "distinct (map app_id xs) \<Longrightarrow>
   update_first (\<lambda>x. app_id x = i) f xs = map (\<lambda>x. if app_id x = i then f x else x) xs"
proof (induction xs)
  case Nil
  then show ?case by simp
next
  case (Cons x xs)
  show ?case
  proof (cases "app_id x = i")
    case True
    with Cons.prems have "\<forall>y\<in>set xs. app_id y \<noteq> i" by (auto simp: image_iff)
    then have "map (\<lambda>x. if app_id x = i then f x else x) xs = xs"
      by (induction xs) auto
    with True show ?thesis by simp
  next
    case False
    with Cons show ?thesis by simp
  qed
qed

lemma trim_filled: "trim ''Position has been filled'' = ''Position has been filled''"
  by (simp add: trim_def isWhiteSpace_def)

lemma trim_empty: "trim [] = []"
  by (simp add: trim_def)

lemma trim_ok: "trim ''ok'' = ''ok''"
  by (simp add: trim_def isWhiteSpace_def)

lemma acceptOutcome_status_self:
  "app_status (acceptOutcome (app_id a) now msg a) = Accepted"
  by (simp add: acceptOutcome_def)

lemma acceptOutcome_status_other:
  "app_id b \<noteq> i \<Longrightarrow> app_status b \<noteq> Accepted \<Longrightarrow>
   app_status (acceptOutcome i now msg b) \<noteq> Accepted"
  by (simp add: acceptOutcome_def)

lemma accepted_count_one:
  "distinct (map app_id xs) \<Longrightarrow> a \<in> set xs \<Longrightarrow> \<forall>b\<in>set xs. app_status b \<noteq> Accepted \<Longrightarrow>
   length (filter (\<lambda>b. app_status b = Accepted) (map (acceptOutcome (app_id a) now msg) xs)) = 1"
proof (induction xs)
  case Nil
  then show ?case by simp
next
  case (Cons x xs)
  show ?case
  proof (cases "x = a")
    case True
    with Cons.prems have "\<forall>y\<in>set xs. app_id y \<noteq> app_id a" by (auto simp: image_iff)
    moreover have "\<forall>y\<in>set xs. app_status y \<noteq> Accepted" using Cons.prems by simp
    ultimately have "filter (\<lambda>b. app_status b = Accepted) (map (acceptOutcome (app_id a) now msg) xs) = []"
      by (simp add: filter_empty_conv acceptOutcome_status_other)
    with True show ?thesis by (simp add: acceptOutcome_status_self)
  next
    case False
    with Cons.prems have "a \<in> set xs" "app_id x \<noteq> app_id a" "app_status x \<noteq> Accepted"
      by (auto simp: image_iff)
    with Cons show ?thesis by (simp add: acceptOutcome_status_other)
  qed
qed

lemma accept_applications:
  assumes "distinct (map app_id xs)"
  shows "rejectOthers i now (update_first (\<lambda>x. app_id x = i) (respond Accepted now msg) xs)
           = map (acceptOutcome i now msg) xs"
  unfolding update_first_by_id [OF assms] rejectOthers_def
  by (auto simp: acceptOutcome_def respond_def trim_filled)

text \<open>
  C2, as stated, at a concrete input. The owner accepts application 11 of a gig
  with two pending applications, sets application 12 back to pending and accepts
  it: each call returns normally and the gig ends with two accepted applications.
\<close>

theorem updateApplicationStatus_accept_counterexample:
  "updateApplicationStatus gig_two_pending 11 Accepted ''ok'' 5
       = Inr (gig_step1, responded (app_of 11 21 Pending) Accepted 5 ''ok'')
   \<and> updateApplicationStatus gig_step1 12 Pending [] 6
       = Inr (gig_step2, responded (app_of 12 22 Pending) Pending 6 [])
   \<and> app_status (applications gig_step2 ! 1) = Pending
   \<and> updateApplicationStatus gig_step2 12 Accepted [] 7
       = Inr (gig_step3, responded (app_of 12 22 Pending) Accepted 7 [])
   \<and> acceptedCount gig_step3 = 2"
  by (simp add: updateApplicationStatus_def gig_two_pending_def gig_step1_def gig_step2_def
        gig_step3_def gig_with_def app_of_def responded_def respond_def rejectOthers_def
        acceptedCount_def trim_filled trim_empty trim_ok Let_def)

text \<open>
  C2, amended. Accepting a pending application of a gig sets that application to
  accepted, rejects every other pending application with \<open>responseAt\<close> and the
  message ``Position has been filled'', leaves the applications in other statuses
  as they were, assigns the gig to the applicant and puts it in progress.
  Consequently, when no application of the gig was accepted before the call,
  exactly one is accepted after it.
\<close>

theorem updateApplicationStatus_accept:
  assumes "distinct (map app_id (applications g))"
      and "a \<in> set (applications g)" and "app_status a = Pending"
  shows "\<exists>g' r. updateApplicationStatus g (app_id a) Accepted msg now = Inr (g', r)
           \<and> r = acceptOutcome (app_id a) now msg a
           \<and> gig_status g' = InProgress
           \<and> assignedTo g' = Some (applicantId a) \<and> assignedAt g' = Some now
           \<and> applications g' = map (acceptOutcome (app_id a) now msg) (applications g)
           \<and> ((\<forall>b\<in>set (applications g). app_status b \<noteq> Accepted) \<longrightarrow> acceptedCount g' = 1)"
proof -
  let ?i = "app_id a"
  have f: "find (\<lambda>x. app_id x = ?i) (applications g) = Some a"
    using assms(1,2) by (rule find_by_id)
  have u: "rejectOthers ?i now
             (update_first (\<lambda>x. app_id x = ?i) (respond Accepted now msg) (applications g))
             = map (acceptOutcome ?i now msg) (applications g)"
    using assms(1) by (rule accept_applications)
  have c: "(\<forall>b\<in>set (applications g). app_status b \<noteq> Accepted) \<longrightarrow>
             length (filter (\<lambda>b. app_status b = Accepted)
                       (map (acceptOutcome ?i now msg) (applications g))) = 1"
    using accepted_count_one [OF assms(1,2)] by blast
  show ?thesis
    using c
    by (simp add: updateApplicationStatus_def f u Let_def respond_def acceptedCount_def
          acceptOutcome_def)
qed

theorem updateApplicationStatus_accept_witness:
  "\<exists>g' r. updateApplicationStatus gig_three_pending 12 Accepted ''welcome'' 9 = Inr (g', r)
     \<and> gig_status g' = InProgress \<and> assignedTo g' = Some 22
     \<and> map app_status (applications g') = [Rejected, Accepted, Rejected]
     \<and> acceptedCount g' = 1"
  using updateApplicationStatus_accept
          [of gig_three_pending "app_of 12 22 Pending" "''welcome''" 9]
  by (auto simp: gig_three_pending_def gig_with_def app_of_def acceptOutcome_def)

text \<open>
  C8, as stated, at a concrete input: the only application of the gig is rejected,
  and the call that sets it to accepted returns normally, with the application
  accepted and the gig assigned and in progress.
\<close>

theorem updateApplicationStatus_resolved_counterexample:
  "updateApplicationStatus gig_one_rejected 11 Accepted [] 9
     = Inr ((gig_with InProgress [responded (app_of 11 21 Rejected) Accepted 9 []])
              \<lparr>assignedTo := Some 21, assignedAt := Some 9\<rparr>,
            responded (app_of 11 21 Rejected) Accepted 9 [])"
  by (simp add: updateApplicationStatus_def gig_one_rejected_def gig_with_def app_of_def
        responded_def respond_def rejectOthers_def trim_empty Let_def)

text \<open>
  C8, amended. For an application that exists, whatever its status,
  \<open>updateApplicationStatus\<close> returns normally: the application takes the requested
  status, \<open>responseAt\<close> and the trimmed message; for a status other than accepted
  nothing else of the gig changes, and for accepted the gig is assigned as in C2.
  The call fails, with ``Application not found'', only when no application has
  the id.
\<close>

theorem updateApplicationStatus_any_status:
  assumes "distinct (map app_id (applications g))"
  shows "(a \<in> set (applications g) \<longrightarrow>
           (\<exists>g' r. updateApplicationStatus g (app_id a) st msg now = Inr (g', r)
              \<and> r = responded a st now (trim msg)
              \<and> (st \<noteq> Accepted \<longrightarrow>
                   g' = g\<lparr>applications :=
                          map (\<lambda>b. if app_id b = app_id a then r else b) (applications g)\<rparr>)
              \<and> (st = Accepted \<longrightarrow>
                   gig_status g' = InProgress \<and> assignedTo g' = Some (applicantId a)
                   \<and> applications g' = map (acceptOutcome (app_id a) now msg) (applications g))))
       \<and> ((\<forall>b\<in>set (applications g). app_id b \<noteq> i) \<longrightarrow>
            updateApplicationStatus g i st msg now = Inl (Error ''Application not found''))"
proof (intro conjI impI)
  assume a: "a \<in> set (applications g)"
  let ?i = "app_id a"
  have f: "find (\<lambda>x. app_id x = ?i) (applications g) = Some a"
    using assms a by (rule find_by_id)
  have m: "map (\<lambda>x. if app_id x = ?i then respond st now msg x else x) (applications g)
             = map (\<lambda>b. if app_id b = ?i then respond st now msg a else b) (applications g)"
  proof (rule map_cong [OF refl])
    fix x assume "x \<in> set (applications g)"
    with assms a have "app_id x = ?i \<longrightarrow> x = a"
      by (auto simp: distinct_map inj_on_def)
    then show "(if app_id x = ?i then respond st now msg x else x)
                 = (if app_id x = ?i then respond st now msg a else x)"
      by auto
  qed
  show "\<exists>g' r. updateApplicationStatus g ?i st msg now = Inr (g', r)
          \<and> r = responded a st now (trim msg)
          \<and> (st \<noteq> Accepted \<longrightarrow>
               g' = g\<lparr>applications :=
                      map (\<lambda>b. if app_id b = ?i then r else b) (applications g)\<rparr>)
          \<and> (st = Accepted \<longrightarrow>
               gig_status g' = InProgress \<and> assignedTo g' = Some (applicantId a)
               \<and> applications g' = map (acceptOutcome ?i now msg) (applications g))"
  proof (cases "st = Accepted")
    case True
    then show ?thesis
      by (simp add: updateApplicationStatus_def f Let_def accept_applications [OF assms]
            respond_def responded_def)
  next
    case False
    then show ?thesis
      using m
      by (simp add: updateApplicationStatus_def f Let_def update_first_by_id [OF assms]
            respond_def responded_def)
  qed
next
  assume "\<forall>b\<in>set (applications g). app_id b \<noteq> i"
  then show "updateApplicationStatus g i st msg now = Inl (Error ''Application not found'')"
    by (simp add: updateApplicationStatus_def find_absent)
qed

theorem updateApplicationStatus_any_status_witness:
  "(\<exists>g' r. updateApplicationStatus gig_one_rejected 11 Withdrawn ''bye'' 9 = Inr (g', r)
      \<and> app_status r = Withdrawn \<and> map app_status (applications g') = [Withdrawn]
      \<and> gig_status g' = Posted)
   \<and> updateApplicationStatus gig_one_rejected 12 Withdrawn ''bye'' 9
       = Inl (Error ''Application not found'')"
  using updateApplicationStatus_any_status
          [of gig_one_rejected "app_of 11 21 Rejected" Withdrawn "''bye''" 9 12]
  by (auto simp: gig_one_rejected_def gig_with_def app_of_def responded_def)

section \<open>Properties of the double arithmetic\<close>




lemma roundHalfEven_nonneg: "0 \<le> y \<Longrightarrow> 0 \<le> roundHalfEven y"
  by (auto simp: roundHalfEven_def Let_def)

lemma toDouble_zero: "toDouble 0 = 0"
  by (simp add: toDouble_def)

lemma toDouble_nonneg: "0 \<le> x \<Longrightarrow> 0 \<le> toDouble x"
  by (auto simp: toDouble_def Let_def intro!: mult_nonneg_nonneg roundHalfEven_nonneg)












lemma rawPercentage_nonneg: "0 \<le> rawPercentage p c"
  by (auto simp: rawPercentage_def Let_def num_add_def num_mul_def num_div_def
        intro!: toDouble_nonneg add_nonneg_nonneg mult_nonneg_nonneg)

lemma Math_round_nonneg: "0 \<le> x \<Longrightarrow> 0 \<le> Math_round x"
  by (simp add: Math_round_def)

section \<open>Properties of the course progress\<close>

text \<open>
  C3, evaluated. The course's passing score is 50. A user who has passed
  (\<open>quizPassed\<close> true, best score 90) records a failed attempt of score 40:
  the attempt is appended and the best score stays 90, but \<open>quizPassed\<close> becomes
  false, where the claim has it stay true. A user who has not passed records an
  attempt of score 60, which the route flags as passed: \<open>quizPassed\<close> stays false,
  where the claim has it become true.
\<close>

theorem recordQuizAttempt_overwrites_quizPassed:
  "quizPassed progress_passed
   \<and> \<not> qd_passed (quizData quiz_sample 4 10 30 500)
   \<and> map_sum id (\<lambda>(p, a). (length (quizAttempts p), bestQuizScore p, quizPassed p))
         (recordQuizAttempt progress_passed (quizData quiz_sample 4 10 30 500) 500)
       = Inr (1, 90, False)
   \<and> \<not> quizPassed progress_enrolled
   \<and> qd_passed (quizData quiz_sample 6 10 30 500)
   \<and> map_sum id (\<lambda>(p, a). (length (quizAttempts p), bestQuizScore p, quizPassed p))
         (recordQuizAttempt progress_enrolled (quizData quiz_sample 6 10 30 500) 500)
       = Inr (1, 60, False)"
  by code_simp




text \<open>
  C5, as stated, at concrete inputs. A user completes the only module of a course
  at instant 100: the progress is completed, at 100 per cent, with \<open>completedAt\<close>
  100. Marking the module completed again at instant 200 assigns \<open>completedAt\<close>
  anew; marking it in progress instead leaves a progress at 0 per cent whose
  status is completed.
\<close>

theorem completedAt_counterexample:
  "map_sum id rs_progress
     (moduleProgressRoute (Some progress_enrolled) (Some course_one) None user_fresh 1
        (body_of ModCompleted) 100) = Inr progress_completed
   \<and> completedAt progress_completed = Some 100
   \<and> map_sum id (\<lambda>s. (status (rs_progress s), progressPercentage (rs_progress s),
                        completedAt (rs_progress s)))
        (moduleProgressRoute (Some progress_completed) (Some course_one) None user_fresh 1
           (body_of ModCompleted) 200) = Inr (Finished, 100, Some 200)
   \<and> map_sum id (\<lambda>s. (status (rs_progress s), progressPercentage (rs_progress s),
                        completedAt (rs_progress s)))
        (moduleProgressRoute (Some progress_completed) (Some course_one) None user_fresh 1
           (body_of ModInProgress) 200) = Inr (Finished, 0, Some 100)"
  by code_simp

text \<open>
  C5, amended. After a recomputation by \<open>calculateOverallProgress\<close>, a percentage
  of 100 goes with the status completed, and whenever the recomputed percentage is
  not 0 the status is completed only at 100 (at 0 the status is left as it was).
  The recomputation assigns \<open>completedAt\<close> only when it is unset and the percentage
  is 100, and never reassigns it. After \<open>markCompleted\<close> the percentage is 100 and
  the status completed.
\<close>

theorem calculateOverallProgress_completedAt:
  assumes "calculateOverallProgress p (Some c) now = (p', r)"
  shows "(progressPercentage p' = 100 \<longrightarrow> status p' = Finished)
       \<and> (progressPercentage p' \<noteq> 0 \<longrightarrow>
            (status p' = Finished \<longleftrightarrow> progressPercentage p' = 100))
       \<and> (completedAt p \<noteq> None \<longrightarrow> completedAt p' = completedAt p)
       \<and> (completedAt p = None \<longrightarrow>
            completedAt p' = (if progressPercentage p' = 100 then Some now else None))
       \<and> (markCompleted p t = Inr q \<longrightarrow> progressPercentage q = 100 \<and> status q = Finished)"
proof -
  have "0 \<le> Math_round (rawPercentage p c)"
    by (rule Math_round_nonneg [OF rawPercentage_nonneg])
  with assms show ?thesis
    by (auto simp: calculateOverallProgress_def markCompleted_def save_progress_def Let_def
          split: if_splits)
qed

theorem calculateOverallProgress_completedAt_witness:
  "calculateOverallProgress (progress_enrolled\<lparr>modulesProgress := [module_done 1 100]\<rparr>)
       (Some course_one) 100
     = (progress_completed\<lparr>lastAccessedAt := 0\<rparr>, Some 100)
   \<and> markCompleted (progress_enrolled\<lparr>modulesProgress := [module_done 1 100]\<rparr>) 100
       = Inr (progress_completed\<lparr>lastAccessedAt := 0\<rparr>)
   \<and> calculateOverallProgress progress_completed (Some course_one) 200
       = (progress_completed, Some 100)
   \<and> status progress_completed = Finished \<and> completedAt progress_completed = Some 100"
proof -
  let ?p = "progress_enrolled\<lparr>modulesProgress := [module_done 1 100]\<rparr>"
  let ?q = "progress_completed\<lparr>lastAccessedAt := 0\<rparr>"
  have e1: "calculateOverallProgress ?p (Some course_one) 100 = (?q, Some 100)"
    by code_simp
  have m: "markCompleted ?p 100 = Inr ?q"
    by code_simp
  have e2: "calculateOverallProgress progress_completed (Some course_one) 200
              = (progress_completed, Some 100)"
    by code_simp
  from calculateOverallProgress_completedAt [OF e1, of 100 ?q]
       calculateOverallProgress_completedAt [OF e2, of 100 ?q] e1 e2 m
  show ?thesis
    by (simp add: progress_completed_def progress_enrolled_def)
qed

text \<open>
  The four modules of a course without a quiz, completed one after the other
  through the route at the instants 10, 20, 30 and 40: the percentages are 25,
  50, 75 and 100, the status is in-progress until the last step completes the
  course, and only that step sets \<open>completedAt\<close>.
\<close>

lemma four_modules_sequence:
  "map (\<lambda>k. progressSummary
               (fold (\<lambda>i r. case r of Inl e \<Rightarrow> Inl e
                              | Inr s \<Rightarrow> completeModule i (10 * int i) s)
                  (take k [1, 2, 3, 4])
                  (Inr \<lparr>rs_progress = progress_enrolled, rs_user = user_fresh,
                        rs_course = Some course_four, rs_badge = None\<rparr>)))
     [1, 2, 3, 4]
   = [Some (25, Started, None), Some (50, Started, None), Some (75, Started, None),
      Some (100, Finished, Some 40)]"
  by code_simp

section \<open>Properties of the badge award\<close>

lemma updateStreak_badges [simp]: "badges (updateStreak u t) = badges u"
  by (simp add: updateStreak_def Let_def split: option.splits)

lemma addXP_badges:
  "addXP u a r t = Inr (u', res) \<Longrightarrow> badges u' = badges u"
  by (auto simp: addXP_def updateLevel_def save_user_def Let_def split: if_splits)

lemma eligible_not_earned:
  "checkEligibility b u now = Eligible \<Longrightarrow> \<not> list_ex (\<lambda>e. badgeId e = badge_id b) (badges u)"
  by (auto simp: checkEligibility_def split: if_splits option.splits)

lemma eligible_facts:
  assumes "checkEligibility b u now = Eligible"
  shows "isActive b" and "availableFrom b \<le> now"
    and "list_all (\<lambda>p. p \<in> set (map badgeId (badges u))) (prerequisites b)"
  using assms by (auto simp: checkEligibility_def split: if_splits option.splits)

lemma addBadge_fresh:
  assumes "\<not> list_ex (\<lambda>e. badgeId e = bid) (badges u)"
  shows "addBadge u bid cid
           = (u\<lparr>badges := badges u @ [\<lparr>badgeId = bid, eb_courseId = cid\<rparr>]\<rparr>, True)"
proof -
  have "find (\<lambda>e. badgeId e = bid \<and> (cid = None \<or> eb_courseId e = cid)) (badges u) = None"
    using assms by (auto simp: find_None_iff list_ex_iff)
  then show ?thesis by (simp add: addBadge_def)
qed

lemma awardToUser_success:
  assumes "awardToUser b u cid now = Inr (u1, b1, x)"
  shows "checkEligibility b u now = Eligible
       \<and> badges u1 = badges u @ [\<lparr>badgeId = badge_id b, eb_courseId = cid\<rparr>]
       \<and> b1 = b\<lparr>earnedCount := earnedCount b + 1\<rparr>"
proof -
  from assms have el: "checkEligibility b u now = Eligible"
    by (auto simp: awardToUser_def split: eligibility.splits)
  note ab = addBadge_fresh [OF eligible_not_earned [OF el], of cid]
  from assms el ab show ?thesis
    by (auto simp: awardToUser_def save_badge_def Let_def map_sum_def
          split: if_splits sum.splits dest: addXP_badges)
qed

lemma earned_not_eligible:
  assumes "list_ex (\<lambda>e. badgeId e = badge_id b) (badges u)"
  shows "\<exists>r. checkEligibility b u now = NotEligible r"
  using assms by (auto simp: checkEligibility_def split: option.splits)

lemma earned_already:
  assumes "list_ex (\<lambda>e. badgeId e = badge_id b) (badges u)"
      and "isActive b" and "availableFrom b \<le> now"
      and "\<forall>t. availableUntil b = Some t \<longrightarrow> now \<le> t"
      and "list_all (\<lambda>p. p \<in> set (map badgeId (badges u))) (prerequisites b)"
  shows "checkEligibility b u now = NotEligible BadgeAlreadyEarned"
  using assms by (auto simp: checkEligibility_def split: option.splits)

text \<open>
  C6, as stated, at a concrete input: a user at 1500 xp is awarded the sample badge
  for course 8; the first call adds the badge, credits 100 xp and counts the
  award; the second call fails with ``Badge already earned''.
\<close>

theorem awardToUser_twice_counterexample:
  "awardToUser badge_sample user_level2 (Some 8) 50
     = Inr (user_awarded, badge_sample\<lparr>earnedCount := 5\<rparr>, 100)
   \<and> awardToUser (badge_sample\<lparr>earnedCount := 5\<rparr>) user_awarded (Some 8) 60
       = Inl (Ineligible BadgeAlreadyEarned)"
  by (simp add: awardToUser_def checkEligibility_def addBadge_def addXP_def updateLevel_def
        save_user_def save_badge_def badge_sample_def user_awarded_def user_level2_def
        user_fresh_def Let_def)

text \<open>
  C6, amended. When a badge has been awarded to a user, awarding it again fails
  with the reason that \<open>checkEligibility\<close> reports (``Badge already earned'' while
  the badge is available) and so changes nothing: the user's badges are as after
  the first call, with the badge once, and the badge's \<open>earnedCount\<close> has grown
  by exactly 1. \<open>awardToUser\<close> fails with the eligibility reason exactly when
  \<open>checkEligibility\<close> reports the user as not eligible.
\<close>

theorem awardToUser_twice:
  "(awardToUser b u cid now = Inr (u1, b1, x) \<longrightarrow>
      badges u1 = badges u @ [\<lparr>badgeId = badge_id b, eb_courseId = cid\<rparr>]
      \<and> \<not> list_ex (\<lambda>e. badgeId e = badge_id b) (badges u)
      \<and> earnedCount b1 = earnedCount b + 1
      \<and> (\<exists>r. awardToUser b1 u1 cid' now' = Inl (Ineligible r))
      \<and> (now \<le> now' \<and> (\<forall>t. availableUntil b = Some t \<longrightarrow> now' \<le> t) \<longrightarrow>
            awardToUser b1 u1 cid' now' = Inl (Ineligible BadgeAlreadyEarned)))
   \<and> ((\<exists>r. awardToUser b u cid now = Inl (Ineligible r))
        \<longleftrightarrow> checkEligibility b u now \<noteq> Eligible)"
proof (intro conjI impI)
  assume a: "awardToUser b u cid now = Inr (u1, b1, x)"
  note s = awardToUser_success [OF a]
  from s have el: "checkEligibility b u now = Eligible" by simp
  from s show "badges u1 = badges u @ [\<lparr>badgeId = badge_id b, eb_courseId = cid\<rparr>]" by simp
  from el show "\<not> list_ex (\<lambda>e. badgeId e = badge_id b) (badges u)"
    by (rule eligible_not_earned)
  from s show "earnedCount b1 = earnedCount b + 1" by simp
  have ex: "list_ex (\<lambda>e. badgeId e = badge_id b1) (badges u1)"
    using s by (simp add: list_ex_iff)
  from earned_not_eligible [OF ex, of now']
  show "\<exists>r. awardToUser b1 u1 cid' now' = Inl (Ineligible r)"
    by (auto simp: awardToUser_def)
next
  assume a: "awardToUser b u cid now = Inr (u1, b1, x)"
     and t: "now \<le> now' \<and> (\<forall>t. availableUntil b = Some t \<longrightarrow> now' \<le> t)"
  note s = awardToUser_success [OF a]
  from s have el: "checkEligibility b u now = Eligible" by simp
  have ex: "list_ex (\<lambda>e. badgeId e = badge_id b1) (badges u1)"
    using s by (simp add: list_ex_iff)
  have "checkEligibility b1 u1 now' = NotEligible BadgeAlreadyEarned"
  proof (rule earned_already [OF ex])
    show "isActive b1" using s eligible_facts(1) [OF el] by simp
    show "availableFrom b1 \<le> now'" using s eligible_facts(2) [OF el] t by simp
    show "\<forall>t. availableUntil b1 = Some t \<longrightarrow> now' \<le> t" using s t by simp
    show "list_all (\<lambda>p. p \<in> set (map badgeId (badges u1))) (prerequisites b1)"
      using s eligible_facts(3) [OF el] by (auto simp: list_all_iff)
  qed
  then show "awardToUser b1 u1 cid' now' = Inl (Ineligible BadgeAlreadyEarned)"
    by (simp add: awardToUser_def)
next
  show "(\<exists>r. awardToUser b u cid now = Inl (Ineligible r))
          \<longleftrightarrow> checkEligibility b u now \<noteq> Eligible"
    by (auto simp: awardToUser_def addXP_def save_user_def save_badge_def Let_def map_sum_def
          split: eligibility.splits if_splits sum.splits prod.splits)
qed

theorem awardToUser_twice_witness:
  "awardToUser badge_sample user_level2 (Some 8) 50
     = Inr (user_awarded, badge_sample\<lparr>earnedCount := 5\<rparr>, 100)
   \<and> badges user_awarded = [\<lparr>badgeId = 3, eb_courseId = Some 8\<rparr>]
   \<and> awardToUser (badge_sample\<lparr>earnedCount := 5\<rparr>) user_awarded None 60
       = Inl (Ineligible BadgeAlreadyEarned)"
proof -
  have e: "awardToUser badge_sample user_level2 (Some 8) 50
             = Inr (user_awarded, badge_sample\<lparr>earnedCount := 5\<rparr>, 100)"
    by (simp add: awardToUser_def checkEligibility_def addBadge_def addXP_def updateLevel_def
          save_user_def save_badge_def badge_sample_def user_awarded_def user_level2_def
          user_fresh_def Let_def)
  from awardToUser_twice [of badge_sample user_level2 "Some 8" 50 user_awarded
         "badge_sample\<lparr>earnedCount := 5\<rparr>" 100 None 60] e
  show ?thesis
    by (simp add: badge_sample_def user_level2_def user_fresh_def user_awarded_def)
qed

section \<open>Properties of the gig collection\<close>

lemma find_expired:
  assumes "distinct (map gig_id db)" and "g \<in> set db" and "expiresAt g \<le> now"
  shows "find (\<lambda>x. gig_id x = gig_id g \<and> expiresAt x > now) db = None"
proof -
  have "\<forall>x\<in>set db. gig_id x = gig_id g \<longrightarrow> x = g"
    using assms(1,2) by (auto simp: distinct_map inj_on_def)
  with assms(3) show ?thesis
    by (auto simp: find_None_iff)
qed

text \<open>
  C10. A stored gig whose \<open>expiresAt\<close> is not strictly in the future is in the
  result of no \<open>find\<close> and is the result of no \<open>findOne\<close>, whatever the query and
  whatever its status; looked up by its id (ids being unique) it is not found, and
  the completion route answers ``Gig not found''.
\<close>

theorem expired_gig_not_found:
  assumes "g \<in> set db" and "expiresAt g \<le> now"
  shows "g \<notin> set (Gig_find db query now)
       \<and> Gig_findOne db query now \<noteq> Some g
       \<and> Gig_findById db (gig_id g) now \<noteq> Some g
       \<and> (distinct (map gig_id db) \<longrightarrow>
            Gig_findById db (gig_id g) now = None
            \<and> completeGigRoute db users reqUser (gig_id g) body now
                = Inl (AppError ''Gig not found'' 404))"
proof -
  have one: "Gig_findOne db q now \<noteq> Some g" for q
    using assms(2) by (auto simp: Gig_findOne_def find_Some_iff)
  have byid: "distinct (map gig_id db) \<Longrightarrow> Gig_findById db (gig_id g) now = None"
    using find_expired [OF _ assms] by (simp add: Gig_findById_def Gig_findOne_def)
  show ?thesis
    using assms(2) one byid
    by (auto simp: Gig_find_def Gig_findById_def completeGigRoute_def)
qed

theorem expired_gig_not_found_witness:
  "gig_status gig_in_progress = InProgress
   \<and> completeGigRoute [gig_in_progress] [user_owner, user_worker] user_owner 1 body_none 1000
       = Inl (AppError ''Gig not found'' 404)
   \<and> Gig_find [gig_in_progress] (\<lambda>g. True) 1000 = []
   \<and> Gig_findOne [gig_in_progress] (\<lambda>g. gig_status g = InProgress) 1000 = None"
proof -
  have m: "gig_in_progress \<in> set [gig_in_progress]" by simp
  have x: "expiresAt gig_in_progress \<le> 1000"
    by (simp add: gig_in_progress_def gig_with_def)
  have i: "gig_id gig_in_progress = 1"
    by (simp add: gig_in_progress_def gig_with_def)
  from expired_gig_not_found [OF m x, of "\<lambda>g. True" "[user_owner, user_worker]" user_owner body_none]
  have "completeGigRoute [gig_in_progress] [user_owner, user_worker] user_owner 1 body_none 1000
          = Inl (AppError ''Gig not found'' 404)"
    by (simp add: i)
  then show ?thesis
    by (simp add: Gig_find_def Gig_findOne_def gig_in_progress_def gig_with_def)
qed

end
